theory Spec2Isabelle
  imports Complex_Main "HOL-Library.AList"
begin

section \<open>Numbers\<close>

text \<open>
  Both programs compute with binary floating point (\<^verbatim>\<open>float\<close> in the firmware, doubles in
  the server). The embedding computes with exact reals: rounding is not modelled. The
  special values that the code can produce at singular points (a logarithm of a
  non-positive number, a division by zero, a failed \<^verbatim>\<open>parseFloat\<close>) are written out as
  constructors, and a comparison with \<^verbatim>\<open>NaN\<close> is false, as in IEEE 754.
\<close>

datatype fnum = Fin real | PInf | NInf | NaN

fun flt :: "fnum \<Rightarrow> fnum \<Rightarrow> bool" where
  "flt (Fin a) (Fin b) = (a < b)"
| "flt (Fin a) PInf = True"
| "flt NInf (Fin b) = True"
| "flt NInf PInf = True"
| "flt _ _ = False"

definition fgt :: "fnum \<Rightarrow> fnum \<Rightarrow> bool" where
  "fgt a b = flt b a"

fun fle :: "fnum \<Rightarrow> fnum \<Rightarrow> bool" where
  "fle NaN _ = False"
| "fle _ NaN = False"
| "fle a b = (\<not> flt b a)"

definition fge :: "fnum \<Rightarrow> fnum \<Rightarrow> bool" where
  "fge a b = fle b a"

section \<open>The edge agent (firmware)\<close>

subsection \<open>Settings: the dynamic configuration variables\<close>

record settings =
  TEMP_IDEAL_MIN :: real
  TEMP_IDEAL_MAX :: real
  TEMP_WARNING_MIN :: real
  TEMP_WARNING_MAX :: real
  TEMP_CRITICAL_MIN :: real
  TEMP_CRITICAL_MAX :: real
  HUM_IDEAL_MIN :: real
  HUM_IDEAL_MAX :: real
  HUM_WARNING_MIN :: real
  HUM_WARNING_MAX :: real
  HUM_CRITICAL_MIN :: real
  HUM_CRITICAL_MAX :: real
  RISK_LOW :: real
  RISK_MEDIUM :: real
  RISK_HIGH :: real
  RISK_CRITICAL :: real
  DEW_POINT_DIFF :: real
  ALARM_TRIGGER_THRESHOLD :: real
  ALARM_STOP_THRESHOLD :: real
  HISTORY_SIZE :: nat

text \<open>The initial values of the globals, which are the reference defaults.\<close>

definition defaultSettings :: settings where
  "defaultSettings = \<lparr>
     TEMP_IDEAL_MIN = 4, TEMP_IDEAL_MAX = 8,
     TEMP_WARNING_MIN = 3, TEMP_WARNING_MAX = 12,
     TEMP_CRITICAL_MIN = 2, TEMP_CRITICAL_MAX = 15,
     HUM_IDEAL_MIN = 90, HUM_IDEAL_MAX = 95,
     HUM_WARNING_MIN = 85, HUM_WARNING_MAX = 98,
     HUM_CRITICAL_MIN = 80, HUM_CRITICAL_MAX = 100,
     RISK_LOW = 20, RISK_MEDIUM = 40, RISK_HIGH = 70, RISK_CRITICAL = 85,
     DEW_POINT_DIFF = 2,
     ALARM_TRIGGER_THRESHOLD = 70, ALARM_STOP_THRESHOLD = 50,
     HISTORY_SIZE = 10 \<rparr>"

subsection \<open>Derived metrics and the risk score\<close>

text \<open>
  \<^verbatim>\<open>calculateDewPoint\<close>: \<open>alpha = (a * temp) / (b + temp) + log(hum / 100)\<close>, result
  \<open>(b * alpha) / (a - alpha)\<close>. At the singular points the float computation gives:
  \<^item> \<open>hum < 0\<close>: the logarithm is \<^verbatim>\<open>NaN\<close>, and so is the result;
  \<^item> \<open>hum = 0\<close> or \<open>b + temp = 0\<close>: \<open>alpha\<close> is \<open>-inf\<close>, the result \<open>-inf / +inf\<close> is \<^verbatim>\<open>NaN\<close>;
  \<^item> \<open>a - alpha = 0\<close>: the numerator \<open>b * a\<close> is positive, the result is \<open>+inf\<close>.
\<close>

definition calculateDewPoint :: "real \<Rightarrow> real \<Rightarrow> fnum" where
  "calculateDewPoint temp hum =
     (let a = 17.27; b = 237.7 in
      if hum \<le> 0 \<or> b + temp = 0 then NaN
      else
        let alpha = ((a * temp) / (b + temp)) + ln (hum / 100) in
        if a - alpha = 0 then PInf else Fin ((b * alpha) / (a - alpha)))"

definition calculateSpoilageRisk :: "settings \<Rightarrow> real \<Rightarrow> real \<Rightarrow> real" where
  "calculateSpoilageRisk c temp hum =
     (let risk = 0;
          risk = (if temp > TEMP_CRITICAL_MAX c then risk + (temp - TEMP_CRITICAL_MAX c) * 4
                  else if temp > TEMP_WARNING_MAX c then risk + (temp - TEMP_WARNING_MAX c) * 2
                  else risk);
          risk = (if temp < TEMP_CRITICAL_MIN c then risk + (TEMP_CRITICAL_MIN c - temp) * 3
                  else if temp < TEMP_IDEAL_MIN c then risk + 10
                  else risk);
          risk = (if hum < HUM_WARNING_MIN c then risk + (HUM_WARNING_MIN c - hum) * 2
                  else risk);
          risk = (if hum > HUM_CRITICAL_MAX c then risk + (hum - HUM_CRITICAL_MAX c) * 5
                  else if hum > HUM_IDEAL_MAX c then risk + (hum - HUM_IDEAL_MAX c) * 2
                  else risk);
          dewPoint = calculateDewPoint temp hum;
          risk = (if fgt dewPoint (Fin (temp - DEW_POINT_DIFF c)) then risk + 40 else risk);
          risk = (if temp > TEMP_IDEAL_MAX c then risk + (temp - TEMP_IDEAL_MAX c) * 1.5
                  else risk)
      in min risk 100)"

definition determineGrainHealth :: "settings \<Rightarrow> real \<Rightarrow> string" where
  "determineGrainHealth c risk =
     (if risk > RISK_HIGH c then ''CRITICAL''
      else if risk > RISK_MEDIUM c then ''WARNING''
      else if risk > RISK_LOW c then ''CAUTION''
      else ''GOOD'')"

subsection \<open>Trend analysis over the temperature ring buffer\<close>

record history =
  tempHistory :: "real list"
  humHistory :: "real list"
  historyIndex :: nat
  historyFilled :: bool

text \<open>
  The summation loop of \<^verbatim>\<open>analyzeTrends\<close>, for \<open>i\<close> from \<open>0\<close> below \<open>dataPoints\<close>; the
  accumulator is \<open>(sumX, sumY, sumXY, sumX2)\<close>. The arrays have \<^verbatim>\<open>MAX_HISTORY_SIZE = 20\<close>
  cells and \<^verbatim>\<open>HISTORY_SIZE\<close> is kept within \<open>3..20\<close> by \<^verbatim>\<open>fetchConfig\<close>, so the source
  never reads past the arrays; the model reads only lists at least that long.
\<close>

definition analyzeTrends_sums :: "real list \<Rightarrow> nat \<Rightarrow> real \<times> real \<times> real \<times> real" where
  "analyzeTrends_sums th dataPoints =
     fold (\<lambda>i (sumX, sumY, sumXY, sumX2).
             (sumX + real i, sumY + th ! i, sumXY + real i * (th ! i), sumX2 + real i * real i))
          [0..<dataPoints] (0, 0, 0, 0)"

definition analyzeTrends_slope :: "real list \<Rightarrow> nat \<Rightarrow> real" where
  "analyzeTrends_slope th dataPoints =
     (case analyzeTrends_sums th dataPoints of
        (sumX, sumY, sumXY, sumX2) \<Rightarrow>
          (real dataPoints * sumXY - sumX * sumY) / (real dataPoints * sumX2 - sumX * sumX))"

text \<open>The label chain at the end of \<^verbatim>\<open>analyzeTrends\<close>.\<close>

definition analyzeTrends_label :: "real \<Rightarrow> string" where
  "analyzeTrends_label slope =
     (if \<bar>slope\<bar> < 0.3 then ''STABLE''
      else if slope > 0.8 then ''RISING_RAPIDLY''
      else if slope > 0.3 then ''RISING''
      else if slope < -0.8 then ''FALLING_RAPIDLY''
      else if slope < -0.3 then ''FALLING''
      else ''STABLE'')"

definition analyzeTrends :: "settings \<Rightarrow> history \<Rightarrow> string" where
  "analyzeTrends c h =
     (if \<not> historyFilled h \<and> historyIndex h < 3 then ''INSUFFICIENT_DATA''
      else
        let dataPoints = (if historyFilled h then HISTORY_SIZE c else historyIndex h) in
        if dataPoints < 3 then ''NEED_MORE_DATA''
        else analyzeTrends_label (analyzeTrends_slope (tempHistory h) dataPoints))"

subsection \<open>The alarm\<close>

record alarm =
  alarmActive :: bool
  alarmStartTime :: nat

definition startAlarm :: "nat \<Rightarrow> alarm \<Rightarrow> alarm" where
  "startAlarm millis s =
     (if \<not> alarmActive s then s\<lparr>alarmActive := True, alarmStartTime := millis\<rparr> else s)"

definition stopAlarm :: "alarm \<Rightarrow> alarm" where
  "stopAlarm s = s\<lparr>alarmActive := False\<rparr>"

text \<open>
  The alarm logic of \<^verbatim>\<open>processSensorData\<close>: two \<^verbatim>\<open>if\<close> statements in sequence, the second
  reading the flag the first may have set. \<open>millis\<close> is the clock at the call.
\<close>

definition processSensorData_alarm :: "settings \<Rightarrow> nat \<Rightarrow> real \<Rightarrow> alarm \<Rightarrow> alarm" where
  "processSensorData_alarm c millis risk s =
     (let s = (if risk > ALARM_TRIGGER_THRESHOLD c \<and> \<not> alarmActive s
               then startAlarm millis s else s);
          s = (if risk \<le> ALARM_STOP_THRESHOLD c \<and> alarmActive s
               then stopAlarm s else s)
      in s)"

text \<open>
  The alerts block of \<^verbatim>\<open>fetchConfig\<close>, as far as the alarm thresholds go. The argument is
  \<^verbatim>\<open>alerts["criticalRiskThreshold"]\<close> read as a float: \<open>None\<close> when the key is missing or
  not a number, in which case \<^verbatim>\<open>|\<close> keeps the old value. The stop threshold is always
  recomputed.
\<close>

definition fetchConfig_alerts :: "real option \<Rightarrow> settings \<Rightarrow> settings" where
  "fetchConfig_alerts criticalRiskThreshold c =
     (let c = c\<lparr>ALARM_TRIGGER_THRESHOLD :=
                   (case criticalRiskThreshold of Some v \<Rightarrow> v
                    | None \<Rightarrow> ALARM_TRIGGER_THRESHOLD c)\<rparr>
      in c\<lparr>ALARM_STOP_THRESHOLD := ALARM_TRIGGER_THRESHOLD c - 20\<rparr>)"

text \<open>Successive evaluation cycles, each with its clock value and risk; the alarm state after every cycle.\<close>

fun alarm_trace :: "settings \<Rightarrow> alarm \<Rightarrow> (nat \<times> real) list \<Rightarrow> alarm list" where
  "alarm_trace c s [] = []"
| "alarm_trace c s ((millis, risk) # rest) =
     (let s' = processSensorData_alarm c millis risk s in s' # alarm_trace c s' rest)"

section \<open>The aggregation server\<close>

subsection \<open>JSON values and the built-in conversions\<close>

text \<open>
  A JSON value as \<^verbatim>\<open>JSON.parse\<close> delivers it. An object is the list of its own properties
  in insertion order, with distinct keys; \<open>None\<close> of type \<open>json option\<close> stands for
  \<^verbatim>\<open>undefined\<close>. Numbers are finite. Keys inherited from \<^verbatim>\<open>Object.prototype\<close> are
  outside the model, and so are characters outside ASCII: they are left out of the
  string literals below.
\<close>

datatype json =
  JNull | JBool bool | JNum real | JStr string | JArr "json list" | JObj "(string \<times> json) list"

text \<open>
  The conversions of the language that the code relies on but that are not code of the
  repository: they are parameters of the model.
\<close>

record builtins =
  StringToNumber :: "string \<Rightarrow> fnum"
  parseFloat_string :: "string \<Rightarrow> fnum"
  parseInt_string :: "string \<Rightarrow> fnum"
  Number_toString :: "real \<Rightarrow> string"
  Array_toString :: "json list \<Rightarrow> string"

fun truthy :: "json option \<Rightarrow> bool" where
  "truthy None = False"
| "truthy (Some JNull) = False"
| "truthy (Some (JBool b)) = b"
| "truthy (Some (JNum x)) = (x \<noteq> 0)"
| "truthy (Some (JStr s)) = (s \<noteq> [])"
| "truthy (Some (JArr xs)) = True"
| "truthy (Some (JObj kvs)) = True"

text \<open>
  Reading a named property. The code reads properties only of values it has tested to be
  truthy, so the \<^verbatim>\<open>TypeError\<close> of reading from \<^verbatim>\<open>null\<close> or \<^verbatim>\<open>undefined\<close> cannot arise; a
  property of a number, boolean, string or array that is not an index or \<^verbatim>\<open>length\<close> is
  \<^verbatim>\<open>undefined\<close>.
\<close>

fun js_get :: "json option \<Rightarrow> string \<Rightarrow> json option" where
  "js_get (Some (JObj kvs)) k = map_of kvs k"
| "js_get _ k = None"

fun js_path :: "json option \<Rightarrow> string list \<Rightarrow> json option" where
  "js_path v [] = v"
| "js_path v (k # ks) = js_path (js_get v k) ks"

fun ToPrimitive :: "builtins \<Rightarrow> json option \<Rightarrow> json option" where
  "ToPrimitive B (Some (JArr xs)) = Some (JStr (Array_toString B xs))"
| "ToPrimitive B (Some (JObj kvs)) = Some (JStr ''[object Object]'')"
| "ToPrimitive B v = v"

fun ToNumber :: "builtins \<Rightarrow> json option \<Rightarrow> fnum" where
  "ToNumber B None = NaN"
| "ToNumber B (Some JNull) = Fin 0"
| "ToNumber B (Some (JBool b)) = Fin (if b then 1 else 0)"
| "ToNumber B (Some (JNum x)) = Fin x"
| "ToNumber B (Some (JStr s)) = StringToNumber B s"
| "ToNumber B (Some (JArr xs)) = StringToNumber B (Array_toString B xs)"
| "ToNumber B (Some (JObj kvs)) = NaN"

fun string_lt :: "string \<Rightarrow> string \<Rightarrow> bool" where
  "string_lt [] [] = False"
| "string_lt [] (y # ys) = True"
| "string_lt (x # xs) [] = False"
| "string_lt (x # xs) (y # ys) =
     (if (of_char x :: nat) < of_char y then True
      else if x = y then string_lt xs ys else False)"

text \<open>The relational operators \<^verbatim>\<open><\<close>, \<^verbatim>\<open>>\<close> and \<^verbatim>\<open>>=\<close>: two strings compare as strings,
  everything else as numbers, and a comparison with \<^verbatim>\<open>NaN\<close> is false.\<close>

definition js_lt :: "builtins \<Rightarrow> json option \<Rightarrow> json option \<Rightarrow> bool" where
  "js_lt B a b =
     (case (ToPrimitive B a, ToPrimitive B b) of
        (Some (JStr s), Some (JStr t)) \<Rightarrow> string_lt s t
      | (pa, pb) \<Rightarrow> flt (ToNumber B pa) (ToNumber B pb))"

definition js_gt :: "builtins \<Rightarrow> json option \<Rightarrow> json option \<Rightarrow> bool" where
  "js_gt B a b = js_lt B b a"

definition js_ge :: "builtins \<Rightarrow> json option \<Rightarrow> json option \<Rightarrow> bool" where
  "js_ge B a b =
     (case (ToPrimitive B a, ToPrimitive B b) of
        (Some (JStr s), Some (JStr t)) \<Rightarrow> \<not> string_lt s t
      | (pa, pb) \<Rightarrow> fge (ToNumber B pa) (ToNumber B pb))"



subsection \<open>Configuration\<close>

definition getDefaultConfig :: json where
  "getDefaultConfig = JObj [
     (''thresholds'', JObj [
        (''temperature'', JObj [
           (''idealMin'', JNum 4), (''idealMax'', JNum 8),
           (''warningMin'', JNum 3), (''warningMax'', JNum 12),
           (''criticalMin'', JNum 2), (''criticalMax'', JNum 15), (''unit'', JStr ''C'')]),
        (''humidity'', JObj [
           (''idealMin'', JNum 90), (''idealMax'', JNum 95),
           (''warningMin'', JNum 85), (''warningMax'', JNum 98),
           (''criticalMin'', JNum 80), (''criticalMax'', JNum 100), (''unit'', JStr ''%'')]),
        (''airQuality'', JObj [
           (''good'', JNum 150), (''moderate'', JNum 300), (''poor'', JNum 500),
           (''veryPoor'', JNum 600), (''unit'', JStr ''MQ135'')]),
        (''spoilageRisk'', JObj [
           (''low'', JNum 20), (''medium'', JNum 40), (''high'', JNum 70),
           (''critical'', JNum 85), (''unit'', JStr ''%'')]),
        (''condensation'', JObj [(''dewPointDifference'', JNum 2), (''unit'', JStr ''C'')])]),
     (''alerts'', JObj [
        (''buzzerEnabled'', JBool False), (''buzzerDuration'', JNum 1000),
        (''criticalRiskThreshold'', JNum 70), (''muteAfterAcknowledge'', JBool False),
        (''soundPattern'', JStr ''pulsing'')]),
     (''dataCollection'', JObj [
        (''sampleInterval'', JNum 30000), (''autoRefreshInterval'', JNum 5000),
        (''dataRetentionDays'', JNum 30), (''historySize'', JNum 10),
        (''unit'', JStr ''milliseconds'')]),
     (''analytics'', JObj [
        (''trendDetection'', JObj [
           (''risingRapidlyThreshold'', JNum 1), (''risingThreshold'', JNum 0.3),
           (''fallingRapidlyThreshold'', JNum (-1)), (''fallingThreshold'', JNum (-0.3)),
           (''minimumDataPoints'', JNum 3)]),
        (''predictions'', JObj [
           (''minimumDataPoints'', JNum 5),
           (''confidenceThresholds'', JObj [
              (''high'', JNum 70), (''medium'', JNum 40), (''low'', JNum 0)]),
           (''timeToCriticalEnabled'', JBool True)]),
        (''patterns'', JObj [
           (''spikeThreshold'', JNum 0.15), (''accelerationMultiplier'', JNum 1.5)])]),
     (''display'', JObj [
        (''chartMaxPoints'', JNum 50), (''chartTimeRange'', JNum 24),
        (''showAdvancedMetrics'', JBool False), (''temperatureUnit'', JStr ''celsius'')]),
     (''system'', JObj [
        (''apiKey'', JStr ''demo123''), (''port'', JNum 3000),
        (''allowRemoteAccess'', JBool True)])]"

fun isObject :: "json option \<Rightarrow> bool" where
  "isObject (Some (JObj kvs)) = True"
| "isObject _ = False"

text \<open>The decimal numeral of an array index, as a property key.\<close>

fun index_key :: "nat \<Rightarrow> string" where
  "index_key n =
     (if n < 10 then [char_of (48 + n)]
      else index_key (n div 10) @ [char_of (48 + n mod 10)])"

text \<open>The own enumerable properties that \<^verbatim>\<open>Object.assign\<close> copies from a source.\<close>

fun own_entries :: "json option \<Rightarrow> (string \<times> json) list" where
  "own_entries (Some (JObj kvs)) = kvs"
| "own_entries (Some (JArr xs)) = map (\<lambda>i. (index_key i, xs ! i)) [0..<length xs]"
| "own_entries (Some (JStr s)) = map (\<lambda>i. (index_key i, JStr [s ! i])) [0..<length s]"
| "own_entries _ = []"

definition Object_assign :: "(string \<times> json) list \<Rightarrow> json option \<Rightarrow> (string \<times> json) list" where
  "Object_assign tgt src = fold (\<lambda>(k, v) out. AList.update k v out) (own_entries src) tgt"

text \<open>
  \<^verbatim>\<open>deepMerge\<close>. \<open>deepMerge_keys\<close> is the \<^verbatim>\<open>forEach\<close> over the keys of the source, with the
  output object as accumulator; \<^verbatim>\<open>key in target\<close> and \<^verbatim>\<open>target[key]\<close> read the target, not the
  output.
\<close>

fun deepMerge :: "json \<Rightarrow> json \<Rightarrow> json"
  and deepMerge_keys :: "(string \<times> json) list \<Rightarrow> (string \<times> json) list \<Rightarrow> (string \<times> json) list
        \<Rightarrow> (string \<times> json) list" where
  "deepMerge (JObj tkvs) (JObj skvs) = JObj (deepMerge_keys tkvs skvs (Object_assign [] (Some (JObj tkvs))))"
| "deepMerge tgt src = JObj (Object_assign [] (Some tgt))"
| "deepMerge_keys tkvs [] out = out"
| "deepMerge_keys tkvs ((k, v) # rest) out =
     deepMerge_keys tkvs rest
       (if isObject (Some v) then
          (case map_of tkvs k of
             None \<Rightarrow> Object_assign out (Some (JObj [(k, v)]))
           | Some tv \<Rightarrow> AList.update k (deepMerge tv v) out)
        else Object_assign out (Some (JObj [(k, v)])))"

text \<open>
  \<^verbatim>\<open>validateConfig\<close>. Each test of the source stands under the \<^verbatim>\<open>if\<close> statements that
  guard its section; here the guards are repeated in the test's own condition. The
  error list grows by \<^verbatim>\<open>push\<close>, in the order of the tests.
\<close>

record validation =
  valid :: bool
  errors :: "string list"

definition validateConfig :: "builtins \<Rightarrow> json \<Rightarrow> validation" where
  "validateConfig B config =
     (let cfg = Some config;
          errors = [];
          t = js_get cfg ''thresholds'';
          temperature = js_get t ''temperature'';
          humidity = js_get t ''humidity'';
          spoilageRisk = js_get t ''spoilageRisk'';
          errors = (if truthy t \<and> truthy temperature
                      \<and> js_ge B (js_get temperature ''idealMin'') (js_get temperature ''idealMax'')
                    then errors @ [''Temperature idealMin must be less than idealMax'']
                    else errors);
          errors = (if truthy t \<and> truthy temperature
                      \<and> js_ge B (js_get temperature ''criticalMin'') (js_get temperature ''criticalMax'')
                    then errors @ [''Temperature criticalMin must be less than criticalMax'']
                    else errors);
          errors = (if truthy t \<and> truthy humidity
                      \<and> js_ge B (js_get humidity ''idealMin'') (js_get humidity ''idealMax'')
                    then errors @ [''Humidity idealMin must be less than idealMax'']
                    else errors);
          errors = (if truthy t \<and> truthy humidity
                      \<and> (js_lt B (js_get humidity ''idealMin'') (Some (JNum 0))
                         \<or> js_gt B (js_get humidity ''idealMax'') (Some (JNum 100)))
                    then errors @ [''Humidity values must be between 0 and 100'']
                    else errors);
          errors = (if truthy t \<and> truthy spoilageRisk
                      \<and> (js_ge B (js_get spoilageRisk ''low'') (js_get spoilageRisk ''medium'')
                         \<or> js_ge B (js_get spoilageRisk ''medium'') (js_get spoilageRisk ''high''))
                    then errors @ [''Spoilage risk thresholds must be in ascending order'']
                    else errors);
          alerts = js_get cfg ''alerts'';
          errors = (if truthy alerts \<and> truthy (js_get alerts ''buzzerDuration'')
                      \<and> js_lt B (js_get alerts ''buzzerDuration'') (Some (JNum 0))
                    then errors @ [''Buzzer duration must be positive'']
                    else errors);
          errors = (if truthy alerts \<and> truthy (js_get alerts ''criticalRiskThreshold'')
                      \<and> (js_lt B (js_get alerts ''criticalRiskThreshold'') (Some (JNum 0))
                         \<or> js_gt B (js_get alerts ''criticalRiskThreshold'') (Some (JNum 100)))
                    then errors @ [''Critical risk threshold must be between 0 and 100'']
                    else errors);
          dataCollection = js_get cfg ''dataCollection'';
          errors = (if truthy dataCollection \<and> truthy (js_get dataCollection ''sampleInterval'')
                      \<and> js_lt B (js_get dataCollection ''sampleInterval'') (Some (JNum 1000))
                    then errors @ [''Sample interval must be at least 1000ms'']
                    else errors);
          errors = (if truthy dataCollection \<and> truthy (js_get dataCollection ''autoRefreshInterval'')
                      \<and> js_lt B (js_get dataCollection ''autoRefreshInterval'') (Some (JNum 1000))
                    then errors @ [''Auto refresh interval must be at least 1000ms'']
                    else errors);
          errors = (if truthy dataCollection \<and> truthy (js_get dataCollection ''dataRetentionDays'')
                      \<and> js_lt B (js_get dataCollection ''dataRetentionDays'') (Some (JNum 1))
                    then errors @ [''Data retention must be at least 1 day'']
                    else errors)
      in \<lparr>valid = (length errors = 0), errors = errors\<rparr>)"

text \<open>
  The handler of \<^verbatim>\<open>PUT /api/config\<close>. The state is the two globals; \<open>writeOk\<close> says whether
  \<^verbatim>\<open>fs.writeFileSync\<close> in \<^verbatim>\<open>saveConfig\<close> succeeds. The result is the HTTP status, the JSON
  body and the new state.
\<close>

record server_state =
  CONFIG :: json
  THRESHOLDS :: json

definition put_api_config ::
    "builtins \<Rightarrow> bool \<Rightarrow> server_state \<Rightarrow> json \<Rightarrow> nat \<times> json \<times> server_state" where
  "put_api_config B writeOk st updates =
     (let updatedConfig = deepMerge (CONFIG st) updates;
          validation = validateConfig B updatedConfig
      in if \<not> valid validation then
           (400, JObj [(''error'', JStr ''Invalid configuration''),
                       (''details'', JArr (map JStr (errors validation)))], st)
         else if writeOk then
           (200, JObj [(''success'', JBool True),
                       (''message'', JStr ''Configuration updated successfully''),
                       (''config'', updatedConfig)],
            st\<lparr>CONFIG := updatedConfig,
               THRESHOLDS := JObj (Object_assign (own_entries (Some (THRESHOLDS st)))
                                     (js_get (Some updatedConfig) ''thresholds''))\<rparr>)
         else (500, JObj [(''error'', JStr ''Failed to save configuration'')], st))"

subsection \<open>Ingestion: POST /api/data\<close>






subsection \<open>Analytics: GET /api/trends\<close>

text \<open>
  A row of \<^verbatim>\<open>sensor_data\<close> as the analytics read it. Every row is written by the route
  above, which stores a number in each of these columns.
\<close>

record row =
  temperature :: real
  humidity :: real
  mq_value :: real
  spoilageRisk :: real
  dewPoint :: real

text \<open>\<^verbatim>\<open>x || 0\<close> on a number, and \<^verbatim>\<open>data.slice(-n)\<close>, \<^verbatim>\<open>data.slice(-m, -n)\<close> on an array.\<close>

definition or0 :: "real \<Rightarrow> real" where
  "or0 x = (if x \<noteq> 0 then x else 0)"

definition slice_last :: "nat \<Rightarrow> 'a list \<Rightarrow> 'a list" where
  "slice_last n xs = drop (length xs - n) xs"

definition slice_range :: "nat \<Rightarrow> nat \<Rightarrow> 'a list \<Rightarrow> 'a list" where
  "slice_range m n xs = take ((length xs - n) - (length xs - m)) (drop (length xs - m) xs)"

definition Math_round :: "real \<Rightarrow> int" where
  "Math_round x = \<lfloor>x + 1 / 2\<rfloor>"

fun String_includes :: "string \<Rightarrow> string \<Rightarrow> bool" where
  "String_includes [] pat = (pat = [])"
| "String_includes (c # cs) pat = (take (length pat) (c # cs) = pat \<or> String_includes cs pat)"

definition calculateSimpleTrend :: "real list \<Rightarrow> real" where
  "calculateSimpleTrend data =
     (if length data < 2 then 0
      else
        let firstHalf = take (length data div 2) data;
            secondHalf = drop (length data div 2) data;
            avgFirst = fold (\<lambda>b a. a + b) firstHalf 0 / real (length firstHalf);
            avgSecond = fold (\<lambda>b a. a + b) secondHalf 0 / real (length secondHalf)
        in avgSecond - avgFirst)"

definition getTrendLabel :: "real \<Rightarrow> string" where
  "getTrendLabel trendValue =
     (if trendValue > 1.0 then ''RISING_RAPIDLY''
      else if trendValue > 0.3 then ''RISING''
      else if trendValue < -1.0 then ''FALLING_RAPIDLY''
      else if trendValue < -0.3 then ''FALLING''
      else ''STABLE'')"

definition detectAcceleratingTrend :: "real list \<Rightarrow> bool" where
  "detectAcceleratingTrend data =
     (if length data < 4 then False
      else
        let firstHalf = take (length data div 2) data;
            secondHalf = drop (length data div 2) data;
            firstTrend = calculateSimpleTrend firstHalf;
            secondTrend = calculateSimpleTrend secondHalf
        in \<bar>secondTrend\<bar> > \<bar>firstTrend\<bar> * 1.5)"

definition detectSpike :: "real list \<Rightarrow> real \<Rightarrow> bool" where
  "detectSpike data threshold =
     (if length data < 3 then False
      else
        let recent = slice_last 3 data;
            before = slice_range 6 3 data
        in if length before < 3 then False
           else
             let avgBefore = fold (\<lambda>b a. a + b) before 0 / real (length before);
                 avgRecent = fold (\<lambda>b a. a + b) recent 0 / real (length recent)
             in \<bar>avgRecent - avgBefore\<bar> > avgBefore * threshold)"

subsubsection \<open>Recommendations\<close>

datatype priority = CRITICAL | HIGH | MEDIUM | LOW

record recommendation =
  priority :: priority
  message :: string
  action :: string

fun priorityOrder :: "priority \<Rightarrow> int" where
  "priorityOrder CRITICAL = 0"
| "priorityOrder HIGH = 1"
| "priorityOrder MEDIUM = 2"
| "priorityOrder LOW = 3"

text \<open>
  The trends object maps a metric to its label (the \<^verbatim>\<open>value\<close> of its entry; the explanation
  texts are left out), the patterns object maps a pattern to its \<^verbatim>\<open>detected\<close> flag.

  The rules of \<^verbatim>\<open>generatePrioritizedRecommendations\<close> in the order of the source: each is
  the condition of an \<^verbatim>\<open>if\<close> statement and the entry that its body pushes.
\<close>

definition generatePrioritizedRecommendations_rules ::
    "row \<Rightarrow> (string \<times> string) list \<Rightarrow> (bool \<times> recommendation) list" where
  "generatePrioritizedRecommendations_rules latest trends =
     (let risk = or0 (spoilageRisk latest);
          temp = or0 (temperature latest);
          hum = or0 (humidity latest);
          mq = or0 (mq_value latest)
      in
      [(temp < 3,
        \<lparr>priority = CRITICAL,
         message = ''FREEZING TEMPERATURE: Immediate action needed to prevent potato damage!'',
         action = ''Increase heating immediately''\<rparr>),
       (risk > 70,
        \<lparr>priority = CRITICAL,
         message = ''CRITICAL SPOILAGE RISK: Immediate intervention required'',
         action = ''Check grain condition and adjust environment''\<rparr>),
       (temp > 12,
        \<lparr>priority = HIGH,
         message = ''Temperature too high for potato storage'',
         action = ''Increase cooling/ventilation to reach 4-8 C range''\<rparr>),
       (hum < 85,
        \<lparr>priority = HIGH,
         message = ''Humidity too low - risk of weight loss'',
         action = ''Increase humidity to 90-95% range''\<rparr>),
       (hum > 95,
        \<lparr>priority = HIGH,
         message = ''Humidity very high - condensation risk'',
         action = ''Reduce humidity and check for wet spots''\<rparr>),
       (dewPoint latest \<noteq> 0 \<and> temp - dewPoint latest < 2,
        \<lparr>priority = MEDIUM,
         message = ''Condensation risk detected'',
         action = ''Monitor for moisture and improve air circulation''\<rparr>),
       (mq > 300,
        \<lparr>priority = MEDIUM,
         message = ''Poor air quality detected'',
         action = ''Increase ventilation to reduce gas levels''\<rparr>),
       ((case map_of trends ''spoilageRisk'' of
           None \<Rightarrow> False | Some v \<Rightarrow> String_includes v ''RISING''),
        \<lparr>priority = MEDIUM,
         message = ''Spoilage risk is increasing'',
         action = ''Monitor closely and prepare to adjust conditions''\<rparr>),
       (temp \<ge> 4 \<and> temp \<le> 8 \<and> hum \<ge> 90 \<and> hum \<le> 95 \<and> risk < 40,
        \<lparr>priority = LOW,
         message = ''Conditions optimal for potato storage'',
         action = ''Maintain current temperature (4-8 C) and humidity (90-95%)''\<rparr>)])"

text \<open>
  The pushes, then \<^verbatim>\<open>Array.prototype.sort\<close> with the comparator
  \<^verbatim>\<open>priorityOrder[a.priority] - priorityOrder[b.priority]\<close>. The language requires the sort to
  be stable, which fixes its result: the stable sort by that key.
\<close>

definition generatePrioritizedRecommendations ::
    "row \<Rightarrow> (string \<times> string) list \<Rightarrow> recommendation list" where
  "generatePrioritizedRecommendations latest trends =
     (let recommendations = map snd (filter fst (generatePrioritizedRecommendations_rules latest trends))
      in sort_key (\<lambda>a. priorityOrder (priority a)) recommendations)"

subsubsection \<open>Confidence\<close>

record confidence =
  level :: string
  score :: int
  factors :: "string list"

definition calculateConfidenceWithFactors ::
    "nat \<Rightarrow> (string \<times> string) list \<Rightarrow> (string \<times> bool) list \<Rightarrow> confidence" where
  "calculateConfidenceWithFactors dataPoints trends patterns =
     (let score = 0;
          factors = [];
          (score, factors) =
            (if dataPoints > 20 then (score + 40, factors @ [''High data volume (20+ points)''])
             else if dataPoints > 10 then
               (score + 25, factors @ [''Moderate data volume (10-20 points)''])
             else (score + 10, factors @ [''Low data volume (<10 points)'']));
          clearTrends =
            length (filter (\<lambda>t. t \<noteq> ''STABLE'' \<and> t \<noteq> ''INSUFFICIENT_DATA'') (map snd trends));
          (score, factors) =
            (if clearTrends \<ge> 2 then (score + 30, factors @ [''Clear trends detected''])
             else if clearTrends \<ge> 1 then (score + 15, factors @ [''Some trends detected''])
             else (score, factors));
          detectedPatterns = length (filter (\<lambda>p. p) (map snd patterns));
          (score, factors) =
            (if detectedPatterns > 0 then (score + 20, factors @ [''Patterns detected in data''])
             else (score, factors));
          score = score + 10;
          factors = factors @ [''Data appears consistent''];
          level = ''low'';
          level = (if score \<ge> 70 then ''high'' else if score \<ge> 40 then ''medium'' else level)
      in \<lparr>level = level, score = score, factors = factors\<rparr>)"

text \<open>The order of the confidence levels, to compare two of them.\<close>

definition level_rank :: "string \<Rightarrow> nat" where
  "level_rank l = (if l = ''high'' then 2 else if l = ''medium'' then 1 else 0)"

subsubsection \<open>The dashboard analytics\<close>

text \<open>
  \<^verbatim>\<open>generateDashboardAnalytics\<close>, as far as the predictions, the trend labels, the pattern
  flags, the recommendations and the confidence go. With no rows \<^verbatim>\<open>latest\<close> is undefined
  and the function throws at its first use; the route calls it with three rows or more.
\<close>

datatype js_error = TypeError

record analytics =
  predictedRisk :: real
  timeToCritical :: "int option"
  trends :: "(string \<times> string) list"
  patterns :: "(string \<times> bool) list"
  recommendations :: "recommendation list"
  confidence :: confidence

definition generateDashboardAnalytics :: "row list \<Rightarrow> js_error + analytics" where
  "generateDashboardAnalytics rows =
     (let recentData = slice_last 10 rows in
      if recentData = [] then Inl TypeError
      else
        let latest = last recentData;
            temps = map temperature recentData;
            hums = map humidity recentData;
            risks = map (\<lambda>d. or0 (spoilageRisk d)) recentData;
            mqValues = map (\<lambda>d. or0 (mq_value d)) recentData;
            tempTrend = calculateSimpleTrend temps;
            humTrend = calculateSimpleTrend hums;
            riskTrend = calculateSimpleTrend risks;
            mqTrend = calculateSimpleTrend mqValues;
            riskChange = (if length risks > 1
                          then risks ! (length risks - 1) - risks ! (length risks - 2) else 0);
            trends = [(''temperature'', getTrendLabel tempTrend),
                      (''humidity'', getTrendLabel humTrend),
                      (''spoilageRisk'', getTrendLabel riskTrend),
                      (''airQuality'', getTrendLabel mqTrend)];
            predictedRisk = min 100 (max 0 (or0 (spoilageRisk latest) + riskChange * 6));
            timeToCritical =
              (if riskChange > 0
               then Some (max 1 (Math_round ((70 - or0 (spoilageRisk latest)) / riskChange)))
               else None);
            patterns = [(''acceleratingRisk'', detectAcceleratingTrend risks),
                        (''temperatureSpike'', detectSpike temps 0.15),
                        (''humiditySurge'', detectSpike hums 0.15),
                        (''airQualityDecline'',
                           length mqValues > 3 \<and> mqValues ! (length mqValues - 1) > 300)]
        in Inr \<lparr>predictedRisk = predictedRisk,
                timeToCritical = timeToCritical,
                trends = trends,
                patterns = patterns,
                recommendations = generatePrioritizedRecommendations latest trends,
                confidence = calculateConfidenceWithFactors (length recentData) trends patterns\<rparr>)"

section \<open>Notions and inputs of the statements\<close>


definition row400 :: row where
  "row400 = \<lparr>temperature = 6, humidity = 92, mq_value = 400, spoilageRisk = 10, dewPoint = 3\<rparr>"


definition row_cold :: row where
  "row_cold = \<lparr>temperature = 2, humidity = 80, mq_value = 100, spoilageRisk = 80, dewPoint = 1\<rparr>"

definition example_builtins :: builtins where
  "example_builtins = \<lparr>StringToNumber = (\<lambda>s. NaN), parseFloat_string = (\<lambda>s. NaN),
     parseInt_string = (\<lambda>s. NaN), Number_toString = (\<lambda>x. ''0''), Array_toString = (\<lambda>xs. [])\<rparr>"

definition update_critical :: json where
  "update_critical =
     JObj [(''thresholds'', JObj [(''spoilageRisk'', JObj [(''critical'', JNum 10)])])]"

definition state0 :: server_state where
  "state0 = \<lparr>CONFIG = getDefaultConfig,
             THRESHOLDS = the (js_get (Some getDefaultConfig) ''thresholds'')\<rparr>"

definition update_two_errors :: json where
  "update_two_errors =
     JObj [(''thresholds'', JObj [(''temperature'', JObj [(''idealMin'', JNum 10)]),
                                   (''humidity'', JObj [(''idealMax'', JNum 120)])])]"

text \<open>The order of the health classifications, to compare two of them.\<close>

definition health_rank :: "string \<Rightarrow> nat" where
  "health_rank h =
     (if h = ''CRITICAL'' then 3 else if h = ''WARNING'' then 2
      else if h = ''CAUTION'' then 1 else 0)"

section \<open>Properties of the edge agent\<close>

subsection \<open>The risk score\<close>

lemma ln_92_lower: "- (1 / 10) < ln (92 / 100 :: real)"
proof -
  have "ln (100 / 92 :: real) \<le> 100 / 92 - 1"
    by (rule ln_le_minus_one) simp
  moreover have "ln (100 / 92 :: real) = - ln (92 / 100)"
    by (simp add: ln_div)
  ultimately show ?thesis by simp
qed

lemma dewPoint_14_92: "\<exists>d. calculateDewPoint 14 92 = Fin d \<and> 12 < d"
proof -
  define l where "l = ln (92 / 100 :: real)"
  have lo: "- (1 / 10) < l" and hi: "l < 0"
    unfolding l_def using ln_92_lower by auto
  define alpha where "alpha = ((17.27 * 14) / (237.7 + 14)) + l"
  have a_lo: "0.86 < alpha" and a_hi: "alpha < 0.97"
    unfolding alpha_def using lo hi by auto
  have pos: "0 < 17.27 - alpha" using a_hi by auto
  have eq: "calculateDewPoint 14 92 = Fin ((237.7 * alpha) / (17.27 - alpha))"
    using pos unfolding calculateDewPoint_def alpha_def l_def by (simp add: Let_def)
  have "12 * (17.27 - alpha) < 237.7 * alpha" using a_lo by auto
  then have "12 < (237.7 * alpha) / (17.27 - alpha)"
    using pos by (simp add: pos_less_divide_eq)
  with eq show ?thesis by blast
qed

lemma risk_14_92: "calculateSpoilageRisk defaultSettings 14 92 = 53"
proof -
  obtain d where d: "calculateDewPoint 14 92 = Fin d" "12 < d"
    using dewPoint_14_92 by blast
  show ?thesis
    unfolding calculateSpoilageRisk_def using d
    by (simp add: Let_def defaultSettings_def fgt_def)
qed

text \<open>
  C1. At 14 degrees and 92 % humidity, with the default thresholds, the score is
  \<open>4 + 40 + 9 = 53\<close>: the warning term \<open>(14 - 12) * 2\<close>, the condensation term (the dew
  point lies above \<open>14 - 2\<close>) and the sprouting term \<open>(14 - 8) * 1.5\<close>. The score is above the
  medium tier and not above the high tier, so the classification is \<^verbatim>\<open>WARNING\<close>.
\<close>

theorem scenario_14_92_is_warning:
  "calculateSpoilageRisk defaultSettings 14 92 = 53
   \<and> determineGrainHealth defaultSettings (calculateSpoilageRisk defaultSettings 14 92) = ''WARNING''
   \<and> fgt (calculateDewPoint 14 92) (Fin (14 - DEW_POINT_DIFF defaultSettings))
   \<and> RISK_MEDIUM defaultSettings < calculateSpoilageRisk defaultSettings 14 92
   \<and> calculateSpoilageRisk defaultSettings 14 92 \<le> RISK_HIGH defaultSettings"
proof -
  obtain d where d: "calculateDewPoint 14 92 = Fin d" "12 < d"
    using dewPoint_14_92 by blast
  have "fgt (calculateDewPoint 14 92) (Fin (14 - DEW_POINT_DIFF defaultSettings))"
    using d by (simp add: fgt_def defaultSettings_def)
  moreover have "determineGrainHealth defaultSettings 53 = ''WARNING''"
    by (simp add: determineGrainHealth_def defaultSettings_def)
  ultimately show ?thesis
    unfolding risk_14_92 by (simp add: defaultSettings_def)
qed

lemma risk_nonneg: "0 \<le> calculateSpoilageRisk c temp hum"
  unfolding calculateSpoilageRisk_def Let_def
  by (intro min.boundedI add_nonneg_nonneg) (simp_all)

lemma risk_le_100: "calculateSpoilageRisk c temp hum \<le> 100"
  unfolding calculateSpoilageRisk_def Let_def by (rule min.cobounded2)

lemma risk_200_200: "calculateSpoilageRisk defaultSettings 200 200 = 100"
  unfolding calculateSpoilageRisk_def by (simp add: Let_def defaultSettings_def)

text \<open>
  C2. For every temperature, humidity and settings the score lies between 0 and 100:
  every term that is added is non-negative under its guard, and the sum is cut at 100.
  At 200 degrees and 200 % humidity it is exactly 100.
\<close>

theorem risk_score_in_range:
  "0 \<le> calculateSpoilageRisk c temp hum
   \<and> calculateSpoilageRisk c temp hum \<le> 100
   \<and> calculateSpoilageRisk defaultSettings 200 200 = 100"
  using risk_nonneg risk_le_100 risk_200_200 by blast

subsection \<open>The alarm dead band\<close>

text \<open>
  C3. After \<^verbatim>\<open>fetchConfig\<close> has set a trigger threshold \<open>t\<close>, the stop threshold is \<open>t - 20\<close>
  (50 for the trigger 70). While the alarm is active, a risk strictly between the two
  leaves the alarm state as it is, and the alarm is still active after a cycle exactly
  when the risk is above the stop threshold: it goes idle only at or below it. From idle,
  the risks 72, 60, 55, 65, 58 leave the alarm active after every cycle.
\<close>

theorem alarm_dead_band:
  "(alarmActive s \<and> t - 20 < risk \<and> risk < t \<longrightarrow>
      processSensorData_alarm (fetchConfig_alerts (Some t) c0) millis risk s = s)
   \<and> (alarmActive s \<longrightarrow>
      (alarmActive (processSensorData_alarm (fetchConfig_alerts (Some t) c0) millis risk s)
         \<longleftrightarrow> t - 20 < risk))
   \<and> ALARM_TRIGGER_THRESHOLD (fetchConfig_alerts (Some 70) c0) = 70
   \<and> ALARM_STOP_THRESHOLD (fetchConfig_alerts (Some 70) c0) = 50
   \<and> map alarmActive
        (alarm_trace (fetchConfig_alerts (Some 70) c0) \<lparr>alarmActive = False, alarmStartTime = 0\<rparr>
           [(1, 72), (2, 60), (3, 55), (4, 65), (5, 58)])
      = [True, True, True, True, True]"
  by (auto simp add: processSensorData_alarm_def fetchConfig_alerts_def startAlarm_def
      stopAlarm_def Let_def)

theorem alarm_dead_band_witness:
  "alarmActive \<lparr>alarmActive = True, alarmStartTime = 7\<rparr> \<and> (70::real) - 20 < 60 \<and> (60::real) < 70
   \<and> processSensorData_alarm (fetchConfig_alerts (Some 70) defaultSettings) 9 60
        \<lparr>alarmActive = True, alarmStartTime = 7\<rparr> = \<lparr>alarmActive = True, alarmStartTime = 7\<rparr>
   \<and> \<not> alarmActive (processSensorData_alarm (fetchConfig_alerts (Some 70) defaultSettings) 9 50
        \<lparr>alarmActive = True, alarmStartTime = 7\<rparr>)"
  using alarm_dead_band [of "\<lparr>alarmActive = True, alarmStartTime = 7\<rparr>" 70 60 defaultSettings 9]
    alarm_dead_band [of "\<lparr>alarmActive = True, alarmStartTime = 7\<rparr>" 70 50 defaultSettings 9]
  by simp

section \<open>Trend labels in the two programs\<close>

lemma slope_of_example:
  "analyzeTrends_slope ([0, 9 / 10, 18 / 10] @ replicate 17 0) 3 = 9 / 10"
  by (simp add: analyzeTrends_slope_def analyzeTrends_sums_def upt_rec numeral_eq_Suc)

text \<open>
  C4, as the code has it. The server labels a slope with the cut points \<open>1.0\<close> and \<open>0.3\<close>:
  above \<open>1.0\<close> rising rapidly, above \<open>0.3\<close> rising, below \<open>-1.0\<close> falling rapidly, below
  \<open>-0.3\<close> falling, stable otherwise. The edge agent has the same cut points \<open>0.3\<close> and
  \<open>-0.3\<close>, but \<open>0.8\<close> and \<open>-0.8\<close> for the rapid bands. The two give a slope the same label
  exactly when its absolute value is not above \<open>0.8\<close> and at most \<open>1.0\<close>.
\<close>

theorem trend_bands_of_server_and_edge:
  "(getTrendLabel s = ''RISING_RAPIDLY'' \<longleftrightarrow> 1 < s)
   \<and> (getTrendLabel s = ''RISING'' \<longleftrightarrow> 0.3 < s \<and> s \<le> 1)
   \<and> (getTrendLabel s = ''FALLING_RAPIDLY'' \<longleftrightarrow> s < -1)
   \<and> (getTrendLabel s = ''FALLING'' \<longleftrightarrow> -1 \<le> s \<and> s < -0.3)
   \<and> (getTrendLabel s = ''STABLE'' \<longleftrightarrow> -0.3 \<le> s \<and> s \<le> 0.3)
   \<and> (analyzeTrends_label s = ''RISING_RAPIDLY'' \<longleftrightarrow> 0.8 < s)
   \<and> (analyzeTrends_label s = ''RISING'' \<longleftrightarrow> 0.3 < s \<and> s \<le> 0.8)
   \<and> (analyzeTrends_label s = ''FALLING_RAPIDLY'' \<longleftrightarrow> s < -0.8)
   \<and> (analyzeTrends_label s = ''FALLING'' \<longleftrightarrow> -0.8 \<le> s \<and> s < -0.3)
   \<and> (analyzeTrends_label s = ''STABLE'' \<longleftrightarrow> -0.3 \<le> s \<and> s \<le> 0.3)
   \<and> (getTrendLabel s = analyzeTrends_label s \<longleftrightarrow> \<not> (0.8 < \<bar>s\<bar> \<and> \<bar>s\<bar> \<le> 1))"
  unfolding getTrendLabel_def analyzeTrends_label_def by (auto simp add: abs_if)

text \<open>
  A temperature history with the least-squares slope \<open>0.9\<close>: the edge agent reports
  \<^verbatim>\<open>RISING_RAPIDLY\<close>, and the server's label for the slope \<open>0.9\<close> is \<^verbatim>\<open>RISING\<close>.
\<close>

theorem trend_bands_differ_at_slope_09:
  "analyzeTrends_slope ([0, 9 / 10, 18 / 10] @ replicate 17 0) 3 = 9 / 10
   \<and> analyzeTrends defaultSettings
        \<lparr>tempHistory = [0, 9 / 10, 18 / 10] @ replicate 17 0, humHistory = replicate 20 0,
         historyIndex = 3, historyFilled = False\<rparr> = ''RISING_RAPIDLY''
   \<and> getTrendLabel (9 / 10) = ''RISING''"
  using slope_of_example
  by (simp add: analyzeTrends_def analyzeTrends_label_def getTrendLabel_def)

section \<open>Properties of the dashboard analytics\<close>

subsection \<open>The window of the last ten rows\<close>

lemma slice_last_nonempty: "rows \<noteq> [] \<Longrightarrow> slice_last 10 rows \<noteq> []"
  by (cases rows) (auto simp add: slice_last_def)

lemma slice_last_last: "rows \<noteq> [] \<Longrightarrow> last (slice_last 10 rows) = last rows"
  by (cases rows) (auto simp add: slice_last_def)

lemma slice_last_length: "length (slice_last 10 rows) = min 10 (length rows)"
  by (simp add: slice_last_def)

lemma slice_last_nth_last:
  assumes "rows \<noteq> []"
  shows "slice_last 10 rows ! (length (slice_last 10 rows) - 1) = rows ! (length rows - 1)"
proof -
  have "slice_last 10 rows ! (length (slice_last 10 rows) - 1) = last (slice_last 10 rows)"
    using slice_last_nonempty [OF assms] by (simp add: last_conv_nth)
  also have "\<dots> = last rows" using assms by (rule slice_last_last)
  also have "\<dots> = rows ! (length rows - 1)" using assms by (simp add: last_conv_nth)
  finally show ?thesis .
qed


lemma analytics_defined: "rows \<noteq> [] \<Longrightarrow> \<exists>a. generateDashboardAnalytics rows = Inr a"
  using slice_last_nonempty [of rows] by (simp add: generateDashboardAnalytics_def Let_def)

lemma analytics_empty: "generateDashboardAnalytics [] = Inl TypeError"
  by (simp add: generateDashboardAnalytics_def slice_last_def)

subsection \<open>The gas pattern\<close>

lemma analytics_patterns:
  assumes "generateDashboardAnalytics rows = Inr a"
  shows "map_of (patterns a) ''airQualityDecline''
      = Some (length (slice_last 10 rows) > 3
              \<and> map (\<lambda>d. or0 (mq_value d)) (slice_last 10 rows)
                    ! (length (slice_last 10 rows) - 1) > 300)"
proof (cases "slice_last 10 rows = []")
  case True
  then show ?thesis using assms by (simp add: generateDashboardAnalytics_def)
next
  case False
  from assms have "patterns a = patterns (projr (generateDashboardAnalytics rows))" by simp
  also have "\<dots> =
      [(''acceleratingRisk'',
          detectAcceleratingTrend (map (\<lambda>d. or0 (spoilageRisk d)) (slice_last 10 rows))),
       (''temperatureSpike'', detectSpike (map temperature (slice_last 10 rows)) 0.15),
       (''humiditySurge'', detectSpike (map humidity (slice_last 10 rows)) 0.15),
       (''airQualityDecline'',
          length (slice_last 10 rows) > 3
          \<and> map (\<lambda>d. or0 (mq_value d)) (slice_last 10 rows)
                ! (length (slice_last 10 rows) - 1) > 300)]"
    using False by (simp add: generateDashboardAnalytics_def Let_def)
  finally show ?thesis by simp
qed

lemma analytics_airQualityDecline:
  assumes "generateDashboardAnalytics rows = Inr a"
  shows "map_of (patterns a) ''airQualityDecline''
           = Some (4 \<le> length rows \<and> 300 < mq_value (rows ! (length rows - 1)))"
proof -
  have ne: "rows \<noteq> []" using assms analytics_empty by auto
  have rdne: "slice_last 10 rows \<noteq> []" using ne by (rule slice_last_nonempty)
  have len: "(3 < length (slice_last 10 rows)) = (4 \<le> length rows)"
    by (auto simp add: slice_last_length)
  have "length (slice_last 10 rows) - 1 < length (slice_last 10 rows)"
    using rdne by (cases "slice_last 10 rows") auto
  then have "map (\<lambda>d. or0 (mq_value d)) (slice_last 10 rows) ! (length (slice_last 10 rows) - 1)
      = or0 (mq_value (slice_last 10 rows ! (length (slice_last 10 rows) - 1)))"
    by simp
  also have "\<dots> = mq_value (rows ! (length rows - 1))"
    using slice_last_nth_last [OF ne] by (simp add: or0_def)
  finally show ?thesis using analytics_patterns [OF assms] len by simp
qed

text \<open>
  C5, as the code has it. The gas decline is reported exactly when there are at least four
  rows and the latest gas reading is above \<open>300\<close>, a constant of the code (the default of
  the moderate threshold); the configured poor threshold is not read.
\<close>

theorem gas_decline_above_300:
  "rows \<noteq> [] \<Longrightarrow>
     (\<exists>a. generateDashboardAnalytics rows = Inr a
        \<and> map_of (patterns a) ''airQualityDecline''
            = Some (4 \<le> length rows \<and> 300 < mq_value (rows ! (length rows - 1))))"
  using analytics_defined [of rows] analytics_airQualityDecline [of rows] by blast

theorem gas_decline_above_300_witness:
  "[row400, row400, row400, row400] \<noteq> []
   \<and> (\<exists>a. generateDashboardAnalytics [row400, row400, row400, row400] = Inr a
        \<and> map_of (patterns a) ''airQualityDecline'' = Some True)"
  using gas_decline_above_300 [of "[row400, row400, row400, row400]"] by (simp add: row400_def)

text \<open>
  Four rows with the gas reading \<open>400\<close>: the pattern is reported, although \<open>400\<close> is not
  above the poor threshold \<open>500\<close> of the default configuration.
\<close>

theorem gas_decline_below_poor_threshold:
  "map_of (patterns (projr (generateDashboardAnalytics [row400, row400, row400, row400])))
       ''airQualityDecline'' = Some True
   \<and> js_path (Some getDefaultConfig) [''thresholds'', ''airQuality'', ''poor''] = Some (JNum 500)
   \<and> \<not> (500 < mq_value (last [row400, row400, row400, row400]))"
proof -
  obtain a where a: "generateDashboardAnalytics [row400, row400, row400, row400] = Inr a"
    using analytics_defined [of "[row400, row400, row400, row400]"] by auto
  have "map_of (patterns a) ''airQualityDecline'' = Some True"
    using analytics_airQualityDecline [OF a] by (simp add: row400_def)
  moreover have "js_path (Some getDefaultConfig) [''thresholds'', ''airQuality'', ''poor'']
      = Some (JNum 500)"
    by (simp add: getDefaultConfig_def)
  ultimately show ?thesis using a by (simp add: row400_def)
qed

subsection \<open>Time to critical\<close>





subsection \<open>Recommendations\<close>

lemma rules_keys:
  "map (\<lambda>r. priorityOrder (priority (snd r))) (generatePrioritizedRecommendations_rules lt ts)
     = [0, 0, 1, 1, 1, 2, 2, 2, 3]"
  by (simp add: generatePrioritizedRecommendations_rules_def Let_def)

lemma pushes_sorted:
  "sorted (map (\<lambda>a. priorityOrder (priority a))
             (map snd (filter fst (generatePrioritizedRecommendations_rules lt ts))))"
proof -
  have "sorted (map (\<lambda>r. priorityOrder (priority (snd r)))
                  (generatePrioritizedRecommendations_rules lt ts))"
    unfolding rules_keys by simp
  then have "sorted (map (\<lambda>r. priorityOrder (priority (snd r)))
                  (filter fst (generatePrioritizedRecommendations_rules lt ts)))"
    by (rule sorted_filter)
  then show ?thesis by (simp add: comp_def)
qed

lemma recommendations_eq_pushes:
  "generatePrioritizedRecommendations lt ts
     = map snd (filter fst (generatePrioritizedRecommendations_rules lt ts))"
  unfolding generatePrioritizedRecommendations_def Let_def
  using pushes_sorted by (rule sort_key_id_if_sorted)

text \<open>
  C8. The recommendation list is sorted by priority rank. It is the list of the entries of
  the rules whose condition holds, in the order of the rules: every such rule has its
  entry in the list, and entries of one priority keep their order. A \<^verbatim>\<open>CRITICAL\<close> entry
  stands before every \<^verbatim>\<open>LOW\<close> entry.
\<close>

theorem recommendations_sorted_stable:
  "sorted (map (\<lambda>a. priorityOrder (priority a)) (generatePrioritizedRecommendations lt ts))
   \<and> generatePrioritizedRecommendations lt ts
       = map snd (filter fst (generatePrioritizedRecommendations_rules lt ts))
   \<and> (\<forall>r \<in> set (generatePrioritizedRecommendations_rules lt ts).
         fst r \<longrightarrow> snd r \<in> set (generatePrioritizedRecommendations lt ts))
   \<and> (\<forall>i j. i < length (generatePrioritizedRecommendations lt ts)
         \<and> j < length (generatePrioritizedRecommendations lt ts)
         \<and> priority (generatePrioritizedRecommendations lt ts ! i) = CRITICAL
         \<and> priority (generatePrioritizedRecommendations lt ts ! j) = LOW
         \<longrightarrow> i < j)"
proof -
  let ?out = "generatePrioritizedRecommendations lt ts"
  have eq: "?out = map snd (filter fst (generatePrioritizedRecommendations_rules lt ts))"
    by (rule recommendations_eq_pushes)
  have srt: "sorted (map (\<lambda>a. priorityOrder (priority a)) ?out)"
    unfolding eq by (rule pushes_sorted)
  have all: "\<forall>r \<in> set (generatePrioritizedRecommendations_rules lt ts).
      fst r \<longrightarrow> snd r \<in> set ?out"
    unfolding eq by force
  have ord: "i < j" if h: "i < length ?out" "j < length ?out"
      "priority (?out ! i) = CRITICAL" "priority (?out ! j) = LOW" for i j
  proof (rule ccontr)
    assume "\<not> i < j"
    then have "j \<le> i" by simp
    then have "map (\<lambda>a. priorityOrder (priority a)) ?out ! j
        \<le> map (\<lambda>a. priorityOrder (priority a)) ?out ! i"
      using srt h(1) by (simp add: sorted_iff_nth_mono del: nth_map)
    then show False using h by simp
  qed
  show ?thesis using eq srt all ord by blast
qed

theorem recommendations_sorted_stable_witness:
  "map priority (generatePrioritizedRecommendations row_cold [(''spoilageRisk'', ''RISING'')])
     = [CRITICAL, CRITICAL, HIGH, MEDIUM, MEDIUM]
   \<and> sorted (map (\<lambda>a. priorityOrder (priority a))
        (generatePrioritizedRecommendations row_cold [(''spoilageRisk'', ''RISING'')]))"
  using recommendations_sorted_stable [of row_cold "[(''spoilageRisk'', ''RISING'')]"]
  by (simp add: generatePrioritizedRecommendations_rules_def row_cold_def or0_def Let_def)

subsection \<open>Confidence\<close>

lemma confidence_score:
  "score (calculateConfidenceWithFactors n t p)
     = (if n > 20 then 40 else if n > 10 then 25 else 10)
       + (if length (filter (\<lambda>t. t \<noteq> ''STABLE'' \<and> t \<noteq> ''INSUFFICIENT_DATA'') (map snd t)) \<ge> 2
          then 30
          else if length (filter (\<lambda>t. t \<noteq> ''STABLE'' \<and> t \<noteq> ''INSUFFICIENT_DATA'') (map snd t)) \<ge> 1
          then 15 else 0)
       + (if length (filter (\<lambda>p. p) (map snd p)) > 0 then 20 else 0) + 10"
  by (simp add: calculateConfidenceWithFactors_def Let_def)

lemma confidence_level:
  "level (calculateConfidenceWithFactors n t p)
     = (if score (calculateConfidenceWithFactors n t p) \<ge> 70 then ''high''
        else if score (calculateConfidenceWithFactors n t p) \<ge> 40 then ''medium'' else ''low'')"
  by (simp add: calculateConfidenceWithFactors_def Let_def)

text \<open>
  C9. With the trends and the patterns fixed, a larger sample count gives a confidence
  score at least as large, and a confidence level at least as high. The count changes
  the score only through the data volume term: 15 more above 10 samples and 30 more above
  20 samples than at 10 samples or fewer.
\<close>

theorem confidence_monotone_in_samples:
  "n1 \<le> n2 \<Longrightarrow>
     score (calculateConfidenceWithFactors n1 t p) \<le> score (calculateConfidenceWithFactors n2 t p)
   \<and> level_rank (level (calculateConfidenceWithFactors n1 t p))
       \<le> level_rank (level (calculateConfidenceWithFactors n2 t p))
   \<and> score (calculateConfidenceWithFactors n2 t p) - score (calculateConfidenceWithFactors 0 t p)
       = (if n2 > 20 then 30 else if n2 > 10 then 15 else 0)"
proof -
  assume le: "n1 \<le> n2"
  have s: "score (calculateConfidenceWithFactors n1 t p)
      \<le> score (calculateConfidenceWithFactors n2 t p)"
    using le unfolding confidence_score by simp
  have l: "level_rank (level (calculateConfidenceWithFactors n1 t p))
       \<le> level_rank (level (calculateConfidenceWithFactors n2 t p))"
    using s unfolding confidence_level by (simp add: level_rank_def)
  have d: "score (calculateConfidenceWithFactors n2 t p)
       - score (calculateConfidenceWithFactors 0 t p)
       = (if n2 > 20 then 30 else if n2 > 10 then 15 else 0)"
    unfolding confidence_score by simp
  show ?thesis using s l d by blast
qed

theorem confidence_monotone_in_samples_witness:
  "(10::nat) \<le> 25 \<and> (25::nat) \<le> 50
   \<and> score (calculateConfidenceWithFactors 10 [(''temperature'', ''RISING'')] []) = 35
   \<and> score (calculateConfidenceWithFactors 25 [(''temperature'', ''RISING'')] []) = 65
   \<and> score (calculateConfidenceWithFactors 50 [(''temperature'', ''RISING'')] []) = 65
   \<and> level (calculateConfidenceWithFactors 10 [(''temperature'', ''RISING'')] []) = ''low''
   \<and> level (calculateConfidenceWithFactors 25 [(''temperature'', ''RISING'')] []) = ''medium''"
  using confidence_monotone_in_samples [of 10 25 "[(''temperature'', ''RISING'')]" "[]"]
  by (simp add: confidence_score confidence_level)

section \<open>Properties of the configuration and ingestion routes\<close>

subsection \<open>An update that the validation lets through\<close>

lemma merged_spoilageRisk:
  "js_path (Some (deepMerge getDefaultConfig update_critical)) [''thresholds'', ''spoilageRisk'']
     = Some (JObj [(''low'', JNum 20), (''medium'', JNum 40), (''high'', JNum 70),
                   (''critical'', JNum 10), (''unit'', JStr ''%'')])"
  by (simp add: getDefaultConfig_def update_critical_def Object_assign_def)

lemma merged_valid:
  "validateConfig B (deepMerge getDefaultConfig update_critical) = \<lparr>valid = True, errors = []\<rparr>"
  by (simp add: getDefaultConfig_def update_critical_def Object_assign_def validateConfig_def
      Let_def js_ge_def js_lt_def js_gt_def fge_def)

text \<open>
  C7. On the default configuration, the update that sets only the critical risk tier to
  \<open>10\<close> is merged, passes the validation with no error and is stored: the stored tiers are
  then high \<open>70\<close> and critical \<open>10\<close>, which is not ascending. The validation compares low
  with medium and medium with high only.
\<close>

theorem put_config_stores_descending_tiers:
  "validateConfig B (deepMerge (CONFIG state0) update_critical) = \<lparr>valid = True, errors = []\<rparr>
   \<and> fst (put_api_config B True state0 update_critical) = 200
   \<and> js_path (Some (CONFIG (snd (snd (put_api_config B True state0 update_critical)))))
        [''thresholds'', ''spoilageRisk'', ''high''] = Some (JNum 70)
   \<and> js_path (Some (CONFIG (snd (snd (put_api_config B True state0 update_critical)))))
        [''thresholds'', ''spoilageRisk'', ''critical''] = Some (JNum 10)"
proof -
  have v: "valid (validateConfig B (deepMerge (CONFIG state0) update_critical))"
    using merged_valid [of B] by (simp add: state0_def)
  have c: "CONFIG (snd (snd (put_api_config B True state0 update_critical)))
      = deepMerge getDefaultConfig update_critical"
    using v by (simp add: put_api_config_def Let_def state0_def)
  have st: "fst (put_api_config B True state0 update_critical) = 200"
    using v by (simp add: put_api_config_def Let_def)
  have p: "js_path (Some (deepMerge getDefaultConfig update_critical))
        [''thresholds'', ''spoilageRisk'', k]
      = js_get (js_path (Some (deepMerge getDefaultConfig update_critical))
          [''thresholds'', ''spoilageRisk'']) k" for k
    by simp
  have m: "validateConfig B (deepMerge (CONFIG state0) update_critical)
      = \<lparr>valid = True, errors = []\<rparr>"
    using merged_valid [of B] by (simp add: state0_def)
  show ?thesis unfolding c p merged_spoilageRisk using st m by simp
qed

subsection \<open>Ingestion\<close>





section \<open>Further properties\<close>

subsection \<open>Merging and rejecting configuration updates\<close>

lemma map_of_deepMerge_keys:
  "distinct (map fst s) \<Longrightarrow>
   map_of (deepMerge_keys t s out) k =
     (case map_of s k of
        None \<Rightarrow> map_of out k
      | Some v \<Rightarrow>
          (if isObject (Some v) then
             (case map_of t k of None \<Rightarrow> Some v | Some tv \<Rightarrow> Some (deepMerge tv v))
           else Some v))"
proof (induction s arbitrary: out)
  case Nil
  then show ?case by simp
next
  case (Cons e s)
  obtain k' v' where e: "e = (k', v')" by (cases e)
  have d: "distinct (map fst s)" and nk: "k' \<notin> fst ` set s"
    using Cons.prems e by auto
  have nm: "map_of s k' = None" using nk by (simp add: map_of_eq_None_iff)
  show ?case
  proof (cases "k = k'")
    case True
    then show ?thesis
      using Cons.IH [OF d] nm e
      by (auto simp add: Object_assign_def update_conv' split: option.splits)
  next
    case False
    then show ?thesis
      using Cons.IH [OF d] e
      by (auto simp add: Object_assign_def update_conv' split: option.splits)
  qed
qed

lemma map_of_fold_update:
  "distinct (map fst t) \<Longrightarrow>
   map_of (fold (\<lambda>(k, v) out. AList.update k v out) t acc) k =
     (case map_of t k of None \<Rightarrow> map_of acc k | Some v \<Rightarrow> Some v)"
proof (induction t arbitrary: acc)
  case Nil
  then show ?case by simp
next
  case (Cons e t)
  obtain k' v' where e: "e = (k', v')" by (cases e)
  have d: "distinct (map fst t)" and nk: "k' \<notin> fst ` set t"
    using Cons.prems e by auto
  have nm: "map_of t k' = None" using nk by (simp add: map_of_eq_None_iff)
  show ?case using Cons.IH [OF d] nm e
    by (auto simp add: update_conv' split: option.splits)
qed

lemma map_of_Object_assign_empty:
  "distinct (map fst t) \<Longrightarrow> map_of (Object_assign [] (Some (JObj t))) k = map_of t k"
  by (simp add: Object_assign_def map_of_fold_update split: option.splits)

text \<open>
  The merge of two objects, key by key: a key that the update does not have keeps the
  value of the target; a key that it has with a value that is not an object takes that
  value; a key that it has with an object takes the merge of the two values when the
  target has the key, and the update's object otherwise.
\<close>

theorem deepMerge_by_key:
  "distinct (map fst t) \<Longrightarrow> distinct (map fst s) \<Longrightarrow>
   js_get (Some (deepMerge (JObj t) (JObj s))) k =
     (case map_of s k of
        None \<Rightarrow> map_of t k
      | Some v \<Rightarrow>
          (if isObject (Some v) then
             (case map_of t k of None \<Rightarrow> Some v | Some tv \<Rightarrow> Some (deepMerge tv v))
           else Some v))"
  using map_of_deepMerge_keys [of s t "Object_assign [] (Some (JObj t))" k]
    map_of_Object_assign_empty [of t k]
  by (simp split: option.splits)

theorem deepMerge_by_key_witness:
  "distinct (map fst [(''a'', JNum 1), (''b'', JObj [(''x'', JNum 2), (''y'', JNum 3)])])
   \<and> distinct (map fst [(''b'', JObj [(''y'', JNum 4)])])
   \<and> js_get (Some (deepMerge (JObj [(''a'', JNum 1), (''b'', JObj [(''x'', JNum 2), (''y'', JNum 3)])])
                              (JObj [(''b'', JObj [(''y'', JNum 4)])]))) ''a'' = Some (JNum 1)
   \<and> js_get (Some (deepMerge (JObj [(''a'', JNum 1), (''b'', JObj [(''x'', JNum 2), (''y'', JNum 3)])])
                              (JObj [(''b'', JObj [(''y'', JNum 4)])]))) ''b''
        = Some (JObj [(''x'', JNum 2), (''y'', JNum 4)])"
  using deepMerge_by_key [of "[(''a'', JNum 1), (''b'', JObj [(''x'', JNum 2), (''y'', JNum 3)])]"
      "[(''b'', JObj [(''y'', JNum 4)])]" "''a''"]
    deepMerge_by_key [of "[(''a'', JNum 1), (''b'', JObj [(''x'', JNum 2), (''y'', JNum 3)])]"
      "[(''b'', JObj [(''y'', JNum 4)])]" "''b''"]
  by (simp add: Object_assign_def)

lemma two_errors:
  "validateConfig B (deepMerge getDefaultConfig update_two_errors)
     = \<lparr>valid = False,
        errors = [''Temperature idealMin must be less than idealMax'',
                  ''Humidity values must be between 0 and 100'']\<rparr>"
  by (simp add: getDefaultConfig_def update_two_errors_def Object_assign_def validateConfig_def
      Let_def js_ge_def js_lt_def js_gt_def fge_def)

text \<open>
  An update whose merged document fails a test of the validation is answered with the
  status 400 and the messages of all failed tests, and the stored configuration and
  thresholds stay as they were.
\<close>

theorem put_config_rejects_without_applying:
  "\<not> valid (validateConfig B (deepMerge (CONFIG st) updates)) \<Longrightarrow>
     put_api_config B writeOk st updates
       = (400, JObj [(''error'', JStr ''Invalid configuration''),
                     (''details'',
                        JArr (map JStr (errors (validateConfig B (deepMerge (CONFIG st) updates)))))],
          st)"
  by (simp add: put_api_config_def Let_def)

theorem put_config_rejects_without_applying_witness:
  "\<not> valid (validateConfig example_builtins (deepMerge (CONFIG state0) update_two_errors))
   \<and> put_api_config example_builtins True state0 update_two_errors
       = (400, JObj [(''error'', JStr ''Invalid configuration''),
                     (''details'',
                        JArr [JStr ''Temperature idealMin must be less than idealMax'',
                              JStr ''Humidity values must be between 0 and 100''])],
          state0)"
  using put_config_rejects_without_applying [of example_builtins state0 update_two_errors True]
    two_errors [of example_builtins]
  by (simp add: state0_def)

subsection \<open>Health classification and constant series\<close>

text \<open>
  With the risk tiers low, medium and high in ascending order, a higher score never
  gets a lower health classification.
\<close>

theorem health_monotone_in_risk:
  "RISK_LOW c \<le> RISK_MEDIUM c \<Longrightarrow> RISK_MEDIUM c \<le> RISK_HIGH c \<Longrightarrow> r1 \<le> r2 \<Longrightarrow>
     health_rank (determineGrainHealth c r1) \<le> health_rank (determineGrainHealth c r2)"
  by (simp add: determineGrainHealth_def health_rank_def)

theorem health_monotone_in_risk_witness:
  "RISK_LOW defaultSettings \<le> RISK_MEDIUM defaultSettings
   \<and> RISK_MEDIUM defaultSettings \<le> RISK_HIGH defaultSettings \<and> (30::real) \<le> 53
   \<and> determineGrainHealth defaultSettings 30 = ''CAUTION''
   \<and> determineGrainHealth defaultSettings 53 = ''WARNING''
   \<and> health_rank ''CAUTION'' \<le> health_rank ''WARNING''"
  using health_monotone_in_risk [of defaultSettings 30 53]
  by (simp add: determineGrainHealth_def defaultSettings_def health_rank_def)

lemma fold_sum_replicate: "fold (\<lambda>b a. a + b) (replicate m (v::real)) s = s + real m * v"
  by (induction m arbitrary: s) (simp_all add: algebra_simps)

text \<open>The server labels a series of equal values as stable, whatever its length.\<close>

theorem constant_series_is_stable:
  "getTrendLabel (calculateSimpleTrend (replicate n v)) = ''STABLE''"
proof (cases "n < 2")
  case True
  then show ?thesis by (simp add: calculateSimpleTrend_def getTrendLabel_def)
next
  case False
  then have h: "0 < n div 2" "0 < n - n div 2" "n div 2 \<le> n" by auto
  have f: "fold (\<lambda>b a. a + b) (take (n div 2) (replicate n v)) 0
             / real (length (take (n div 2) (replicate n v))) = v"
    using h by (simp add: fold_sum_replicate min_def del: fold_replicate)
  have g: "fold (\<lambda>b a. a + b) (drop (n div 2) (replicate n v)) 0
             / real (length (drop (n div 2) (replicate n v))) = v"
    using h by (simp add: fold_sum_replicate del: fold_replicate)
  have "calculateSimpleTrend (replicate n v) = 0"
    using False unfolding calculateSimpleTrend_def Let_def
    by (simp only: length_replicate f g) simp
  then show ?thesis by (simp add: getTrendLabel_def)
qed

end
